theory Spec2Isabelle
  imports Main
begin

section \<open>Python values used by the Discord logging handlers\<close>

text \<open>
  A Python \<open>str\<close> is a sequence of Unicode code points and \<open>len\<close> counts code points,
  so a string is modelled as a list of code points (natural numbers). \<open>py\<close> reads an
  ASCII literal as such a string.
\<close>

type_synonym pystr = "nat list"

definition py :: "string \<Rightarrow> pystr" where
  "py s = map of_char s"

definition NL :: nat where
  "NL = 10"

definition SP :: nat where
  "SP = 32"

text \<open>The literals \<open>"..."\<close> and the code fence of three backquotes.\<close>

definition ellipsis :: pystr where
  "ellipsis = [46, 46, 46]"

definition fence :: pystr where
  "fence = [96, 96, 96]"

text \<open>
  Exceptions carry their class and the text \<open>str(e)\<close>. \<open>KeyboardInterrupt\<close> stands for
  the classes that derive from \<open>BaseException\<close> only, which \<open>except Exception\<close> does not
  catch.
\<close>

datatype exn_class = HTTPException | KeyError | ValueError | OtherException | KeyboardInterrupt

datatype exn = Raised exn_class pystr

fun exn_str :: "exn \<Rightarrow> pystr" where
  "exn_str (Raised k s) = s"

fun is_HTTPException :: "exn \<Rightarrow> bool" where
  "is_HTTPException (Raised k s) = (k = HTTPException)"

fun is_Exception :: "exn \<Rightarrow> bool" where
  "is_Exception (Raised k s) = (k \<noteq> KeyboardInterrupt)"

text \<open>The slices \<open>xs[i:]\<close> and \<open>xs[0:j]\<close>: a negative index counts from the end, and
  both ends are clamped to the list.\<close>

definition py_slice_from :: "int \<Rightarrow> 'a list \<Rightarrow> 'a list" where
  "py_slice_from i xs =
     (let n = int (length xs);
          s = (if i < 0 then max 0 (n + i) else min i n)
      in drop (nat s) xs)"

definition py_slice_upto :: "int \<Rightarrow> 'a list \<Rightarrow> 'a list" where
  "py_slice_upto j xs =
     (let n = int (length xs);
          e = (if j < 0 then max 0 (n + j) else min j n)
      in take (nat e) xs)"

text \<open>\<open>s.split(c)\<close>: every piece between separators, at least one piece.\<close>

fun py_split :: "'a \<Rightarrow> 'a list \<Rightarrow> 'a list list" where
  "py_split c [] = [[]]"
| "py_split c (x # xs) =
     (if x = c then [] # py_split c xs
      else (case py_split c xs of
              [] \<Rightarrow> [[x]]
            | l # ls \<Rightarrow> (x # l) # ls))"

text \<open>\<open>s.split(c, maxsplit=1)\<close>: one piece when \<open>c\<close> does not occur, two otherwise.\<close>

definition py_split1 :: "'a \<Rightarrow> 'a list \<Rightarrow> 'a list list" where
  "py_split1 c xs =
     (if c \<in> set xs
      then [takeWhile (\<lambda>x. x \<noteq> c) xs, drop 1 (dropWhile (\<lambda>x. x \<noteq> c) xs)]
      else [xs])"

text \<open>\<open>max(list)\<close> raises \<open>ValueError\<close> on an empty list.\<close>

fun py_max :: "int list \<Rightarrow> exn + int" where
  "py_max [] = Inl (Raised ValueError (py ''max() arg is an empty sequence''))"
| "py_max (x # xs) = Inr (fold max xs x)"

text \<open>An f-string field \<open>{v}\<close> renders \<open>None\<close> as the text \<open>None\<close>.\<close>

fun fstr :: "pystr option \<Rightarrow> pystr" where
  "fstr None = py ''None''"
| "fstr (Some s) = s"

text \<open>Truth value of an optional string: \<open>None\<close> and the empty string are false.\<close>

fun truthy :: "pystr option \<Rightarrow> bool" where
  "truthy None = False"
| "truthy (Some s) = (s \<noteq> [])"


section \<open>Data model\<close>

text \<open>The level constants of the standard \<open>logging\<close> module.\<close>

definition CRITICAL :: int where "CRITICAL = 50"
definition ERROR :: int where "ERROR = 40"
definition WARNING :: int where "WARNING = 30"
definition INFO :: int where "INFO = 20"
definition DEBUG :: int where "DEBUG = 10"

text \<open>The style dictionaries are keyed by a level number or by \<open>None\<close>.\<close>

definition DEFAULT_COLOURS :: "int option \<rightharpoonup> int" where
  "DEFAULT_COLOURS =
     [None \<mapsto> 2040357,
      Some CRITICAL \<mapsto> 14362664,
      Some ERROR \<mapsto> 14362664,
      Some WARNING \<mapsto> 16497928,
      Some INFO \<mapsto> 2196944,
      Some DEBUG \<mapsto> 8947848]"

definition DEFAULT_EMOJIS :: "int option \<rightharpoonup> pystr" where
  "DEFAULT_EMOJIS =
     [None \<mapsto> [],
      Some CRITICAL \<mapsto> [127384],
      Some ERROR \<mapsto> [10060],
      Some WARNING \<mapsto> [9888, 65039],
      Some INFO \<mapsto> [],
      Some DEBUG \<mapsto> []]"

record LogRecord =
  levelno :: int
  msg :: pystr

record DiscordEmbed =
  title :: pystr
  description :: "pystr option"
  color :: int

text \<open>What is handed to the webhook client: the \<open>DiscordWebhook\<close> object of the
  long-format handler.\<close>

record DiscordWebhook =
  wh_url :: pystr
  wh_username :: pystr
  wh_rate_limit_retry :: bool
  wh_avatar_url :: "pystr option"
  content :: "pystr option"
  embeds :: "DiscordEmbed list"

text \<open>The call \<open>SyncWebhook.from_url(url).send(username, avatar_url, embed)\<close> of the
  minimal handler.\<close>

record SyncSend =
  send_url :: pystr
  send_username :: pystr
  send_avatar_url :: "pystr option"
  send_embed :: DiscordEmbed

text \<open>
  The handler of \<open>src/handler.py\<close>, and its extension of
  \<open>src/discord_logging/handler.py\<close> with the two further constructor parameters.
\<close>

record DiscordHandler =
  webhook_url :: pystr
  service_name :: pystr
  colours :: "int option \<rightharpoonup> int"
  emojis :: "int option \<rightharpoonup> pystr"
  avatar_url :: "pystr option"
  reentry_barrier :: bool

record DiscordHandlerLong = DiscordHandler +
  rate_limit_retry :: bool
  embed_line_wrap_threshold :: int

text \<open>
  The effects of \<open>emit\<close> outside the handler: the messages handed to the transport (one
  for each call of \<open>execute\<close> or \<open>send\<close>), the number of HTTP POST requests the transport
  made for them, the lines written on standard error, and the calls of the framework's
  \<open>handleError\<close>.
\<close>

record 'p world =
  posts :: "'p list"
  requests :: nat
  stderr :: "pystr list"
  handled :: "LogRecord list"

text \<open>
  The collaborators, none of which is code of the handlers. Each call returns or raises.
  \<^item> \<open>format\<close>: the framework's formatter.
  \<^item> \<open>handleError\<close>: the framework's error hook, which does not raise; the result is the
  lines it writes on standard error (a traceback when \<open>logging.raiseExceptions\<close> is set,
  as it is by default).
  \<^item> \<open>DiscordEmbed_init\<close>: the constructor \<open>DiscordEmbed(title, description, color)\<close>,
  which raises for a colour it does not accept. The constructor \<open>DiscordWebhook(...)\<close>
  only stores its keyword arguments and is not a collaborator.
  \<^item> \<open>execute\<close> and \<open>send\<close>: the delivery. Each makes one HTTP POST and then as many
  more as the transport retries by itself on a rate-limit response; the result is that
  number of retries and the exception raised, if any.
  \<^item> \<open>from_url\<close>: \<open>SyncWebhook.from_url\<close>, which raises for a malformed URL.
\<close>

record env =
  format :: "LogRecord \<Rightarrow> exn + pystr"
  handleError :: "LogRecord \<Rightarrow> pystr list"
  DiscordEmbed_init :: "DiscordEmbed \<Rightarrow> exn option"
  execute :: "DiscordWebhook \<Rightarrow> nat \<times> exn option"
  from_url :: "pystr \<Rightarrow> exn option"
  send :: "SyncSend \<Rightarrow> nat \<times> exn option"

text \<open>\<open>print(text, file=sys.stderr)\<close> writes the lines of the text.\<close>

definition print_stderr :: "pystr \<Rightarrow> 'p world \<Rightarrow> 'p world" where
  "print_stderr text w = w\<lparr>stderr := stderr w @ py_split NL text\<rparr>"

text \<open>\<open>self.handleError(record)\<close>\<close>

definition call_handleError :: "env \<Rightarrow> LogRecord \<Rightarrow> 'p world \<Rightarrow> 'p world" where
  "call_handleError ev record w =
     w\<lparr>stderr := stderr w @ handleError ev record, handled := handled w @ [record]\<rparr>"

text \<open>One delivery: the message is handed to the transport, which makes one request and
  its retries.\<close>

definition delivered :: "'p \<Rightarrow> nat \<Rightarrow> 'p world \<Rightarrow> 'p world" where
  "delivered d retries w = w\<lparr>posts := posts w @ [d], requests := requests w + Suc retries\<rparr>"

section \<open>The long-format handler\<close>

definition DiscordHandlerLong_init ::
  "pystr \<Rightarrow> pystr \<Rightarrow> (int option \<rightharpoonup> int) \<Rightarrow> (int option \<rightharpoonup> pystr) \<Rightarrow> pystr option \<Rightarrow> bool \<Rightarrow> int
     \<Rightarrow> DiscordHandlerLong" where
  "DiscordHandlerLong_init service webhook cols emos avatar retry threshold =
     \<lparr>webhook_url = webhook, service_name = service, colours = cols, emojis = emos,
      avatar_url = avatar, reentry_barrier = False,
      rate_limit_retry = retry, embed_line_wrap_threshold = threshold\<rparr>"

definition should_format_as_code_block :: "DiscordHandlerLong \<Rightarrow> LogRecord \<Rightarrow> pystr \<Rightarrow> bool" where
  "should_format_as_code_block h record m =
     (if NL \<notin> set m \<and> int (length m) > embed_line_wrap_threshold h then True
      else NL \<in> set m)"

definition clip_content :: "pystr \<Rightarrow> int \<Rightarrow> bool \<Rightarrow> pystr" where
  "clip_content c max_len clip_to_end =
     (if int (length c) > max_len - 5 then
        (if clip_to_end then ellipsis @ py_slice_from (- max_len) c
         else py_slice_upto max_len c @ ellipsis)
      else c)"

text \<open>\<open>self.colours.get(record.levelno) or self.colours[None]\<close>\<close>

definition colour_long :: "(int option \<rightharpoonup> int) \<Rightarrow> int \<Rightarrow> exn + int" where
  "colour_long cols l =
     (case cols (Some l) of
        Some c \<Rightarrow>
          (if c \<noteq> 0 then Inr c
           else (case cols None of
                   None \<Rightarrow> Inl (Raised KeyError (py ''None''))
                 | Some d \<Rightarrow> Inr d))
      | None \<Rightarrow>
          (case cols None of
             None \<Rightarrow> Inl (Raised KeyError (py ''None''))
           | Some d \<Rightarrow> Inr d))"

text \<open>\<open>emoji = self.emojis.get(record.levelno)\<close>, then a space appended when it is true.\<close>

definition emoji_long :: "(int option \<rightharpoonup> pystr) \<Rightarrow> int \<Rightarrow> pystr option" where
  "emoji_long emos l =
     (case emos (Some l) of
        None \<Rightarrow> None
      | Some emoji \<Rightarrow> if emoji \<noteq> [] then Some (emoji @ [SP]) else Some emoji)"

text \<open>\<open>embed = DiscordEmbed(...)\<close> and \<open>discord.add_embed(embed)\<close>: the constructor may
  raise.\<close>

definition add_embed :: "env \<Rightarrow> DiscordWebhook \<Rightarrow> DiscordEmbed \<Rightarrow> exn + DiscordWebhook" where
  "add_embed ev discord b =
     (case DiscordEmbed_init ev b of
        Some e \<Rightarrow> Inl e
      | None \<Rightarrow> Inr (discord\<lparr>embeds := embeds discord @ [b]\<rparr>))"

text \<open>The body of the inner \<open>try\<close> between formatting and \<open>execute\<close>: the message object
  that will be sent, or the exception raised on the way.\<close>

definition layout ::
  "env \<Rightarrow> DiscordHandlerLong \<Rightarrow> LogRecord \<Rightarrow> pystr \<Rightarrow> DiscordWebhook \<Rightarrow> exn + DiscordWebhook" where
  "layout ev h record m discord =
     (case colour_long (colours h) (levelno record) of
        Inl e \<Rightarrow> Inl e
      | Inr colour \<Rightarrow>
          (let emoji = emoji_long (emojis h) (levelno record) in
           if should_format_as_code_block h record m then
             (let (first, remainder) =
                    (case py_split1 NL m of
                       [a, b] \<Rightarrow> (a, b)
                     | _ \<Rightarrow> (m, []))
              in case py_max (map (\<lambda>l. int (length l)) (py_split NL m)) of
                   Inl e \<Rightarrow> Inl e
                 | Inr max_line_length \<Rightarrow>
                     (let clipped = clip_content remainder 1900 True in
                      if max_line_length > embed_line_wrap_threshold h then
                        (let clipped_msg = clip_content m 1900 True in
                         Inr (discord\<lparr>content := Some (fence @ fstr emoji @ clipped_msg @ fence)\<rparr>))
                      else
                        add_embed ev discord
                          \<lparr>title = fstr emoji @ first, description = Some clipped,
                           color = colour\<rparr>))
           else
             (let title = (if truthy emoji then fstr emoji @ m else m) in
              add_embed ev discord \<lparr>title = title, description = None, color = colour\<rparr>)))"

text \<open>The inner \<open>try\<close>: format, lay out, \<open>discord.execute()\<close>. The result is the exception
  raised, if any, and the world after.\<close>

definition inner_long ::
  "env \<Rightarrow> DiscordHandlerLong \<Rightarrow> LogRecord \<Rightarrow> DiscordWebhook \<Rightarrow> DiscordWebhook world
     \<Rightarrow> exn option \<times> DiscordWebhook world" where
  "inner_long ev h record discord w =
     (case format ev record of
        Inl e \<Rightarrow> (Some e, w)
      | Inr m \<Rightarrow>
          (case layout ev h record m discord of
             Inl e \<Rightarrow> (Some e, w)
           | Inr d \<Rightarrow> (snd (execute ev d), delivered d (fst (execute ev d)) w)))"

text \<open>The object built by \<open>DiscordWebhook(url=self.webhook_url, username=self.service_name,
  rate_limit_retry=self.rate_limit_retry, avatar_url=self.avatar_url)\<close>.\<close>

definition new_DiscordWebhook :: "DiscordHandlerLong \<Rightarrow> DiscordWebhook" where
  "new_DiscordWebhook h =
     \<lparr>wh_url = webhook_url h, wh_username = service_name h,
      wh_rate_limit_retry = rate_limit_retry h, wh_avatar_url = avatar_url h,
      content = None, embeds = []\<rparr>"

text \<open>The outer \<open>try\<close>: the client object is built, then the inner \<open>try\<close> runs, whose
  handler \<open>except Exception as e\<close> prints and calls \<open>handleError\<close>.\<close>

definition outer_long ::
  "env \<Rightarrow> DiscordHandlerLong \<Rightarrow> LogRecord \<Rightarrow> DiscordWebhook world
     \<Rightarrow> exn option \<times> DiscordWebhook world" where
  "outer_long ev h record w =
     (let discord = new_DiscordWebhook h
      in case inner_long ev h record discord w of
           (None, w1) \<Rightarrow> (None, w1)
         | (Some e, w1) \<Rightarrow>
             (if is_Exception e then
                (None, call_handleError ev record
                         (print_stderr (py ''Error from Discord logger '' @ exn_str e) w1))
              else (Some e, w1)))"

text \<open>After the barrier check: set the barrier, run the \<open>try\<close>, and clear the barrier in
  \<open>finally\<close>.\<close>

definition emit_long_guarded ::
  "env \<Rightarrow> DiscordHandlerLong \<Rightarrow> LogRecord \<Rightarrow> DiscordWebhook world
     \<Rightarrow> exn option \<times> DiscordHandlerLong \<times> DiscordWebhook world" where
  "emit_long_guarded ev h record w =
     (let h1 = h\<lparr>reentry_barrier := True\<rparr>;
          (raised, w1) = outer_long ev h1 record w
      in (raised, h1\<lparr>reentry_barrier := False\<rparr>, w1))"

text \<open>\<open>emit\<close> of \<open>src/discord_logging/handler.py\<close>. The first component is the exception
  that reaches the caller, \<open>None\<close> when \<open>emit\<close> returns.\<close>

definition emit_long ::
  "env \<Rightarrow> DiscordHandlerLong \<Rightarrow> LogRecord \<Rightarrow> DiscordWebhook world
     \<Rightarrow> exn option \<times> DiscordHandlerLong \<times> DiscordWebhook world" where
  "emit_long ev h record w =
     (if reentry_barrier h then (None, h, w)
      else emit_long_guarded ev h record w)"

section \<open>The minimal handler\<close>

definition DiscordHandler_init ::
  "pystr \<Rightarrow> pystr \<Rightarrow> (int option \<rightharpoonup> int) \<Rightarrow> (int option \<rightharpoonup> pystr) \<Rightarrow> pystr option
     \<Rightarrow> DiscordHandler" where
  "DiscordHandler_init service webhook cols emos avatar =
     \<lparr>webhook_url = webhook, service_name = service, colours = cols, emojis = emos,
      avatar_url = avatar, reentry_barrier = False\<rparr>"

text \<open>\<open>self.colours.get(record.levelno, self.colours[None])\<close>: the default is evaluated
  before the lookup.\<close>

definition colour_min :: "(int option \<rightharpoonup> int) \<Rightarrow> int \<Rightarrow> exn + int" where
  "colour_min cols l =
     (case cols None of
        None \<Rightarrow> Inl (Raised KeyError (py ''None''))
      | Some d \<Rightarrow> (case cols (Some l) of None \<Rightarrow> Inr d | Some c \<Rightarrow> Inr c))"

text \<open>\<open>self.emojis.get(record.levelno, "")\<close>\<close>

definition emoji_min :: "(int option \<rightharpoonup> pystr) \<Rightarrow> int \<Rightarrow> pystr" where
  "emoji_min emos l = (case emos (Some l) of None \<Rightarrow> [] | Some e \<Rightarrow> e)"

definition inner_min ::
  "env \<Rightarrow> DiscordHandler \<Rightarrow> LogRecord \<Rightarrow> SyncSend world \<Rightarrow> exn option \<times> SyncSend world" where
  "inner_min ev h record w =
     (case format ev record of
        Inl e \<Rightarrow> (Some e, w)
      | Inr m \<Rightarrow>
          (case colour_min (colours h) (levelno record) of
             Inl e \<Rightarrow> (Some e, w)
           | Inr colour \<Rightarrow>
               (let emoji = emoji_min (emojis h) (levelno record);
                    m1 = (if emoji \<noteq> [] then emoji @ [SP] @ m else m)
                in case from_url ev (webhook_url h) of
                     Some e \<Rightarrow> (Some e, w)
                   | None \<Rightarrow>
                       (let embed = \<lparr>title = m1, description = None, color = colour\<rparr>;
                            call = \<lparr>send_url = webhook_url h, send_username = service_name h,
                                    send_avatar_url = avatar_url h, send_embed = embed\<rparr>
                        in (snd (send ev call), delivered call (fst (send ev call)) w)))))"

text \<open>The \<open>try\<close> with its handlers \<open>except HTTPException\<close> and \<open>except Exception\<close>.\<close>

definition outer_min ::
  "env \<Rightarrow> DiscordHandler \<Rightarrow> LogRecord \<Rightarrow> SyncSend world \<Rightarrow> exn option \<times> SyncSend world" where
  "outer_min ev h record w =
     (case inner_min ev h record w of
        (None, w1) \<Rightarrow> (None, w1)
      | (Some e, w1) \<Rightarrow>
          (if is_HTTPException e then
             (None, print_stderr (py ''Error from Discord logger '' @ exn_str e) w1)
           else if is_Exception e then
             (None, call_handleError ev record w1)
           else (Some e, w1)))"

definition emit_min_guarded ::
  "env \<Rightarrow> DiscordHandler \<Rightarrow> LogRecord \<Rightarrow> SyncSend world
     \<Rightarrow> exn option \<times> DiscordHandler \<times> SyncSend world" where
  "emit_min_guarded ev h record w =
     (let h1 = h\<lparr>reentry_barrier := True\<rparr>;
          (raised, w1) = outer_min ev h1 record w
      in (raised, h1\<lparr>reentry_barrier := False\<rparr>, w1))"

text \<open>\<open>emit\<close> of \<open>src/handler.py\<close>.\<close>

definition emit_min ::
  "env \<Rightarrow> DiscordHandler \<Rightarrow> LogRecord \<Rightarrow> SyncSend world
     \<Rightarrow> exn option \<times> DiscordHandler \<times> SyncSend world" where
  "emit_min ev h record w =
     (if reentry_barrier h then (None, h, w)
      else emit_min_guarded ev h record w)"

section \<open>Concrete handlers, records and collaborators\<close>

definition world0 :: "'p world" where
  "world0 = \<lparr>posts = [], requests = 0, stderr = [], handled = []\<rparr>"

text \<open>A webhook URL of the form the client libraries accept: an id of 18 digits and a
  token of 64 characters.\<close>

definition hook_url :: pystr where
  "hook_url = py ''https://discord.com/api/webhooks/123456789012345678/'' @ replicate 64 97"

text \<open>Handlers built with the default style dictionaries and the default parameters.\<close>

definition handler_long :: DiscordHandlerLong where
  "handler_long =
     DiscordHandlerLong_init (py ''svc'') hook_url DEFAULT_COLOURS DEFAULT_EMOJIS None True 60"

definition handler_min :: DiscordHandler where
  "handler_min =
     DiscordHandler_init (py ''svc'') hook_url DEFAULT_COLOURS DEFAULT_EMOJIS None"

text \<open>Handlers whose emoji dictionary has a visible entry under the fallback key.\<close>

definition handler_long_fallback :: DiscordHandlerLong where
  "handler_long_fallback =
     DiscordHandlerLong_init (py ''svc'') hook_url
       DEFAULT_COLOURS [None \<mapsto> py ''?'', Some ERROR \<mapsto> [10060]] None True 60"

definition handler_min_fallback :: DiscordHandler where
  "handler_min_fallback =
     DiscordHandler_init (py ''svc'') hook_url
       DEFAULT_COLOURS [None \<mapsto> py ''?'', Some ERROR \<mapsto> [10060]] None"

text \<open>Lines such as the framework's \<open>handleError\<close> writes around the traceback.\<close>

definition traceback_lines :: "pystr list" where
  "traceback_lines =
     [py ''--- Logging error ---'', py ''Traceback (most recent call last):'',
      py ''Call stack:'']"

text \<open>Formatting returns the record's message, the embed constructor accepts the
  24-bit colours and raises for any other, and every delivery succeeds at the first
  request.\<close>

definition env_ok :: env where
  "env_ok =
     \<lparr>format = (\<lambda>r. Inr (msg r)),
      handleError = (\<lambda>r. traceback_lines),
      DiscordEmbed_init =
        (\<lambda>b. if 0 \<le> color b \<and> color b < 16777216 then None
              else Some (Raised OtherException (py ''not in valid range of colors''))),
      execute = (\<lambda>d. (0, None)),
      from_url = (\<lambda>u. None),
      send = (\<lambda>c. (0, None))\<rparr>"

text \<open>The formatter raises.\<close>

definition env_format_fails :: env where
  "env_format_fails =
     env_ok\<lparr>format := (\<lambda>r. Inl (Raised OtherException (py ''not all arguments converted'')))\<rparr>"

text \<open>Delivery fails: the transport raises in \<open>execute\<close> and in \<open>send\<close>.\<close>

definition env_send_fails :: env where
  "env_send_fails =
     env_ok\<lparr>execute := (\<lambda>d. (0, Some (Raised OtherException (py ''connection refused'')))),
            send := (\<lambda>c. (0, Some (Raised HTTPException (py ''429 Too Many Requests''))))\<rparr>"

text \<open>The delivery is interrupted from the keyboard.\<close>

definition env_interrupted :: env where
  "env_interrupted =
     env_ok\<lparr>execute := (\<lambda>d. (0, Some (Raised KeyboardInterrupt []))),
            send := (\<lambda>c. (0, Some (Raised KeyboardInterrupt [])))\<rparr>"

text \<open>The server answers the first request with a rate-limit response, and the transport
  retries once.\<close>

definition env_rate_limited :: env where
  "env_rate_limited = env_ok\<lparr>execute := (\<lambda>d. (1, None)), send := (\<lambda>c. (1, None))\<rparr>"

definition record_info :: LogRecord where
  "record_info = \<lparr>levelno = INFO, msg = py ''hello''\<rparr>"

text \<open>Records of a custom level between \<open>INFO\<close> and \<open>WARNING\<close>, which no default
  dictionary has: two short lines, one short line, and one line of 61 characters.\<close>

definition record_custom :: LogRecord where
  "record_custom = \<lparr>levelno = 25, msg = py ''a'' @ [NL] @ py ''b''\<rparr>"

definition record_custom_short :: LogRecord where
  "record_custom_short = \<lparr>levelno = 25, msg = py ''hello''\<rparr>"

definition record_custom_long :: LogRecord where
  "record_custom_long = \<lparr>levelno = 25, msg = replicate 61 97\<rparr>"


text \<open>An error of two short lines.\<close>

definition record_error :: LogRecord where
  "record_error = \<lparr>levelno = ERROR, msg = py ''a'' @ [NL] @ py ''b''\<rparr>"

section \<open>Clipping\<close>

text \<open>The two slices of \<open>clip_content\<close> for a positive maximum: the last and the first
  \<open>max_len\<close> elements, or all of them when there are fewer.\<close>

lemma py_slice_from_tail:
  assumes "1 \<le> M"
  shows "py_slice_from (- M) c = drop (length c - min (length c) (nat M)) c"
proof (cases "int (length c) \<le> M")
  case True
  then have "length c \<le> nat M" by linarith
  with assms True show ?thesis by (simp add: py_slice_from_def)
next
  case False
  then have "nat M \<le> length c" by linarith
  moreover from assms have "nat (int (length c) - M) = length c - nat M" by linarith
  ultimately show ?thesis using assms False by (simp add: py_slice_from_def)
qed

lemma py_slice_upto_head:
  assumes "0 \<le> M"
  shows "py_slice_upto M c = take (nat M) c"
proof (cases "M \<le> int (length c)")
  case True
  with assms show ?thesis by (simp add: py_slice_upto_def)
next
  case False
  then have "length c \<le> nat M" by linarith
  with assms False show ?thesis by (simp add: py_slice_upto_def)
qed

lemma length_py_slice_from_le:
  assumes "1 \<le> M"
  shows "int (length (py_slice_from (- M) c)) \<le> M"
  using assms by (simp add: py_slice_from_tail)

text \<open>
  Claim C6, as amended. The ellipsis has three characters. Content of length at most
  \<open>M - 5\<close> is returned unchanged. Longer content is clipped: for \<open>M \<ge> 1\<close> the tail
  policy returns the ellipsis followed by the last \<open>min L M\<close> characters of the content,
  and for \<open>M \<ge> 0\<close> the head policy returns the first \<open>min L M\<close> characters followed by
  the ellipsis. The kept part has \<open>M\<close> characters only when the content has at least
  \<open>M\<close>.
\<close>

theorem clip_content_policy:
  "length ellipsis = 3 \<and>
   (int (length c) \<le> M - 5 \<longrightarrow> clip_content c M b = c) \<and>
   (M - 5 < int (length c) \<and> 1 \<le> M \<longrightarrow>
      clip_content c M True = ellipsis @ drop (length c - min (length c) (nat M)) c) \<and>
   (M - 5 < int (length c) \<and> 0 \<le> M \<longrightarrow>
      clip_content c M False = take (min (length c) (nat M)) c @ ellipsis)"
proof -
  have "length ellipsis = 3" by (simp add: ellipsis_def)
  moreover have "clip_content c M b = c" if "int (length c) \<le> M - 5"
    using that by (simp add: clip_content_def)
  moreover have "clip_content c M True = ellipsis @ drop (length c - min (length c) (nat M)) c"
    if "M - 5 < int (length c)" "1 \<le> M"
    using that by (simp add: clip_content_def py_slice_from_tail)
  moreover have "clip_content c M False = take (min (length c) (nat M)) c @ ellipsis"
    if "M - 5 < int (length c)" "0 \<le> M"
    using that by (simp add: clip_content_def py_slice_upto_head min_def)
  ultimately show ?thesis by blast
qed

text \<open>The policy at maximum 10: twelve characters are clipped to ten under either
  policy, five characters are returned as they are.\<close>

theorem clip_content_policy_witness:
  "clip_content (replicate 12 97) 10 False = replicate 10 97 @ ellipsis \<and>
   clip_content (replicate 12 97) 10 True = ellipsis @ replicate 10 97 \<and>
   clip_content (replicate 5 97) 10 True = replicate 5 97"
  using clip_content_policy [of "replicate 12 97" 10 True]
    clip_content_policy [of "replicate 5 97" 10 True]
  by simp

text \<open>Claim C6 as stated fails: seven characters exceed \<open>10 - 5\<close>, and the tail policy
  returns the ellipsis and those seven characters, ten in all and not \<open>10 + 3\<close>.\<close>

theorem clip_content_counterexample:
  "5 < int (length [1, 2, 3, 4, 5, 6, 7 :: nat]) \<and>
   clip_content [1, 2, 3, 4, 5, 6, 7] 10 True = ellipsis @ [1, 2, 3, 4, 5, 6, 7] \<and>
   length (clip_content [1, 2, 3, 4, 5, 6, 7] 10 True) \<noteq> 10 + 3"
  by (simp add: clip_content_def py_slice_from_def ellipsis_def)

text \<open>
  Claim C10. \<open>clip_content\<close> is a total function with no raising branch. For a maximum of
  at least 5 its result has at most \<open>max_len + 3\<close> characters; content longer than
  \<open>max_len - 5\<close> and no longer than \<open>max_len\<close> comes back whole behind the ellipsis under
  the tail policy; and with the default maximum 1900 a result of 1903 characters occurs.
\<close>

theorem clip_content_length_bound:
  assumes "5 \<le> M"
  shows "int (length (clip_content c M b)) \<le> M + 3 \<and>
         (M - 5 < int (length c) \<and> int (length c) \<le> M \<longrightarrow>
            clip_content c M True = ellipsis @ c) \<and>
         length (clip_content (replicate 1900 x) 1900 True) = 1903"
proof -
  have a: "int (length (clip_content c M b)) \<le> M + 3"
  proof (cases "M - 5 < int (length c)")
    case True
    show ?thesis
    proof (cases b)
      case True
      from assms have "int (length (py_slice_from (- M) c)) \<le> M"
        by (intro length_py_slice_from_le) simp
      with \<open>M - 5 < int (length c)\<close> True show ?thesis
        by (simp add: clip_content_def ellipsis_def)
    next
      case False
      from assms have "int (length (py_slice_upto M c)) \<le> M"
        by (simp add: py_slice_upto_head)
      with \<open>M - 5 < int (length c)\<close> False show ?thesis
        by (simp add: clip_content_def ellipsis_def)
    qed
  next
    case False
    then show ?thesis by (simp add: clip_content_def)
  qed
  have b: "clip_content c M True = ellipsis @ c"
    if "M - 5 < int (length c)" "int (length c) \<le> M"
  proof -
    from that have "length c \<le> nat M" by linarith
    with that assms show ?thesis by (simp add: clip_content_def py_slice_from_tail)
  qed
  have c: "length (clip_content (replicate 1900 x) 1900 True) = 1903"
    by (simp add: clip_content_def py_slice_from_def ellipsis_def)
  from a b c show ?thesis by blast
qed

theorem clip_content_length_bound_witness:
  "(5::int) \<le> 10 \<and>
   int (length (clip_content [1, 2, 3, 4, 5, 6, 7] 10 True)) \<le> 10 + 3 \<and>
   clip_content [1, 2, 3, 4, 5, 6, 7] 10 True = ellipsis @ [1, 2, 3, 4, 5, 6, 7]"
proof -
  have h: "(5::int) \<le> 10" by simp
  show ?thesis using h clip_content_length_bound [OF h, of "[1, 2, 3, 4, 5, 6, 7]" True]
    by (simp add: ellipsis_def)
qed

section \<open>Lines of a message\<close>

text \<open>\<open>split\<close> never returns an empty list, so the \<open>max\<close> over the line lengths never
  raises; its first piece is the text before the first separator.\<close>

lemma py_split_not_Nil: "py_split c xs \<noteq> []"
  by (induction xs) (auto split: list.splits)

lemma py_split_no_separator: "c \<notin> set xs \<Longrightarrow> py_split c xs = [xs]"
  by (induction xs) auto


lemma py_max_Max:
  assumes "xs \<noteq> []"
  shows "py_max xs = Inr (Max (set xs))"
proof (cases xs)
  case Nil
  with assms show ?thesis by simp
next
  case (Cons a list)
  with Max.set_eq_fold [of a list] show ?thesis by simp
qed

lemma py_max_lines:
  "py_max (map (\<lambda>l. int (length l)) (py_split c xs)) =
     Inr (Max ((\<lambda>l. int (length l)) ` set (py_split c xs)))"
  using py_max_Max [of "map (\<lambda>l. int (length l)) (py_split c xs)"]
  by (simp add: py_split_not_Nil)

section \<open>Facts about the concrete handlers and collaborators\<close>

lemma handler_long_simps:
  "\<not> reentry_barrier handler_long"
  "colours handler_long = DEFAULT_COLOURS"
  "emojis handler_long = DEFAULT_EMOJIS"
  "embed_line_wrap_threshold handler_long = 60"
  by (simp_all add: handler_long_def DiscordHandlerLong_init_def)

lemma handler_min_simps:
  "\<not> reentry_barrier handler_min"
  "colours handler_min = DEFAULT_COLOURS"
  "emojis handler_min = DEFAULT_EMOJIS"
  by (simp_all add: handler_min_def DiscordHandler_init_def)

lemma handler_long_fallback_simps:
  "\<not> reentry_barrier handler_long_fallback"
  "colours handler_long_fallback = DEFAULT_COLOURS"
  "emojis handler_long_fallback = [None \<mapsto> py ''?'', Some ERROR \<mapsto> [10060]]"
  "embed_line_wrap_threshold handler_long_fallback = 60"
  by (simp_all add: handler_long_fallback_def DiscordHandlerLong_init_def)

lemma handler_min_fallback_simps:
  "\<not> reentry_barrier handler_min_fallback"
  "colours handler_min_fallback = DEFAULT_COLOURS"
  "emojis handler_min_fallback = [None \<mapsto> py ''?'', Some ERROR \<mapsto> [10060]]"
  by (simp_all add: handler_min_fallback_def DiscordHandler_init_def)

lemma env_ok_simps:
  "format env_ok r = Inr (msg r)"
  "execute env_ok d = (0, None)"
  "from_url env_ok u = None"
  "send env_ok c = (0, None)"
  "0 \<le> k \<Longrightarrow> k < 16777216 \<Longrightarrow>
     DiscordEmbed_init env_ok \<lparr>title = t, description = s, color = k\<rparr> = None"
  by (simp_all add: env_ok_def)

lemma default_style_ERROR:
  "colour_long DEFAULT_COLOURS ERROR = Inr 14362664"
  "colour_min DEFAULT_COLOURS ERROR = Inr 14362664"
  "DEFAULT_EMOJIS (Some ERROR) = Some [10060]"
  by (simp_all add: colour_long_def colour_min_def DEFAULT_COLOURS_def DEFAULT_EMOJIS_def
        CRITICAL_def ERROR_def WARNING_def INFO_def DEBUG_def)


lemma default_style_custom:
  "colour_long DEFAULT_COLOURS 25 = Inr 2040357"
  "colour_min DEFAULT_COLOURS 25 = Inr 2040357"
  "DEFAULT_EMOJIS (Some 25) = None"
  "emoji_long DEFAULT_EMOJIS 25 = None"
  by (simp_all add: colour_long_def colour_min_def emoji_long_def DEFAULT_COLOURS_def
        DEFAULT_EMOJIS_def CRITICAL_def ERROR_def WARNING_def INFO_def DEBUG_def)


lemma record_custom_long_simps:
  "levelno record_custom_long = 25"
  "msg record_custom_long = replicate 61 97"
  "NL \<notin> set (replicate 61 97)"
  "py_split NL (replicate 61 97) = [replicate 61 97]"
  "clip_content (replicate 61 97) 1900 True = replicate 61 97"
  by (simp_all add: record_custom_long_def NL_def clip_content_def py_split_no_separator)

text \<open>The definitions that evaluate \<open>emit\<close> on the concrete inputs.\<close>

lemmas eval_defs =
  emit_long_def emit_long_guarded_def outer_long_def inner_long_def
  emit_min_def emit_min_guarded_def outer_min_def inner_min_def
  layout_def add_embed_def colour_long_def emoji_long_def should_format_as_code_block_def
  colour_min_def emoji_min_def new_DiscordWebhook_def delivered_def print_stderr_def
  call_handleError_def
  env_format_fails_def env_send_fails_def env_interrupted_def env_rate_limited_def env_ok_def
  handler_long_def handler_min_def handler_long_fallback_def handler_min_fallback_def
  DiscordHandlerLong_init_def DiscordHandler_init_def world0_def
  record_info_def record_custom_def record_custom_short_def record_error_def
  DEFAULT_COLOURS_def DEFAULT_EMOJIS_def INFO_def CRITICAL_def ERROR_def WARNING_def
  DEBUG_def py_def NL_def SP_def traceback_lines_def clip_content_def

section \<open>The reentrancy barrier\<close>

text \<open>Nothing in the \<open>try\<close> reads the barrier, and \<open>finally\<close> restores it: with the
  barrier clear, \<open>emit\<close> returns the handler as it was.\<close>

lemma layout_barrier [simp]: "layout ev (h\<lparr>reentry_barrier := b\<rparr>) r m d = layout ev h r m d"
  by (simp add: layout_def should_format_as_code_block_def Let_def
        split: sum.splits list.splits prod.splits)

lemma new_DiscordWebhook_barrier [simp]:
  "new_DiscordWebhook (h\<lparr>reentry_barrier := b\<rparr>) = new_DiscordWebhook h"
  by (simp add: new_DiscordWebhook_def)

lemma inner_long_barrier [simp]:
  "inner_long ev (h\<lparr>reentry_barrier := b\<rparr>) r d w = inner_long ev h r d w"
  by (simp add: inner_long_def split: sum.splits)

lemma outer_long_barrier [simp]:
  "outer_long ev (h\<lparr>reentry_barrier := b\<rparr>) r w = outer_long ev h r w"
  by (simp add: outer_long_def Let_def split: option.splits prod.splits)

lemma inner_min_barrier [simp]:
  "inner_min ev (h\<lparr>reentry_barrier := b\<rparr>) r w = inner_min ev h r w"
  by (simp add: inner_min_def Let_def split: sum.splits option.splits)

lemma outer_min_barrier [simp]:
  "outer_min ev (h\<lparr>reentry_barrier := b\<rparr>) r w = outer_min ev h r w"
  by (simp add: outer_min_def split: option.splits prod.splits)

lemma emit_long_clear:
  "\<not> reentry_barrier h \<Longrightarrow> emit_long ev h r w = (fst (outer_long ev h r w), h, snd (outer_long ev h r w))"
  by (simp add: emit_long_def emit_long_guarded_def split_beta)

lemma emit_min_clear:
  "\<not> reentry_barrier h \<Longrightarrow> emit_min ev h r w = (fst (outer_min ev h r w), h, snd (outer_min ev h r w))"
  by (simp add: emit_min_def emit_min_guarded_def split_beta)

text \<open>
  Claim C2. With the barrier set, \<open>emit\<close> of either handler returns at once: no
  exception, the handler unchanged, and the world unchanged (nothing handed to the
  transport, no request, nothing written, \<open>handleError\<close> not called).
\<close>

theorem emit_reentrant_noop:
  assumes "reentry_barrier hl" and "reentry_barrier hm"
  shows "emit_long ev hl r wl = (None, hl, wl) \<and> emit_min ev hm r wm = (None, hm, wm)"
  using assms by (simp add: emit_long_def emit_min_def)

theorem emit_reentrant_noop_witness:
  "emit_long env_ok (handler_long\<lparr>reentry_barrier := True\<rparr>) record_info world0 =
     (None, handler_long\<lparr>reentry_barrier := True\<rparr>, world0) \<and>
   emit_min env_ok (handler_min\<lparr>reentry_barrier := True\<rparr>) record_info world0 =
     (None, handler_min\<lparr>reentry_barrier := True\<rparr>, world0)"
  using emit_reentrant_noop [of "handler_long\<lparr>reentry_barrier := True\<rparr>"
      "handler_min\<lparr>reentry_barrier := True\<rparr>" env_ok record_info world0 world0]
  by simp

text \<open>
  Claim C3. With the barrier clear at the start, the handler after \<open>emit\<close> is the handler
  before it, so the barrier is clear again, whatever the collaborators did (returned,
  raised an \<open>Exception\<close>, raised something else); and the next \<open>emit\<close> on that handler is
  not short-circuited: it runs the guarded body.
\<close>

theorem emit_clears_barrier:
  assumes "\<not> reentry_barrier hl" and "\<not> reentry_barrier hm"
  shows "fst (snd (emit_long ev hl r wl)) = hl \<and>
         \<not> reentry_barrier (fst (snd (emit_long ev hl r wl))) \<and>
         emit_long ev' (fst (snd (emit_long ev hl r wl))) r' wl' =
           emit_long_guarded ev' (fst (snd (emit_long ev hl r wl))) r' wl' \<and>
         fst (snd (emit_min ev hm r wm)) = hm \<and>
         \<not> reentry_barrier (fst (snd (emit_min ev hm r wm))) \<and>
         emit_min ev' (fst (snd (emit_min ev hm r wm))) r' wm' =
           emit_min_guarded ev' (fst (snd (emit_min ev hm r wm))) r' wm'"
proof -
  from assms(1) have l: "fst (snd (emit_long ev hl r wl)) = hl"
    by (simp add: emit_long_clear)
  from assms(2) have m: "fst (snd (emit_min ev hm r wm)) = hm"
    by (simp add: emit_min_clear)
  from assms show ?thesis
    unfolding l m by (simp add: emit_long_def emit_min_def)
qed

text \<open>The first call fails in delivery; the second call runs the guarded body.\<close>

theorem emit_clears_barrier_witness:
  "\<not> reentry_barrier handler_long \<and> \<not> reentry_barrier handler_min \<and>
   fst (snd (emit_long env_send_fails handler_long record_info world0)) = handler_long \<and>
   emit_long env_ok (fst (snd (emit_long env_send_fails handler_long record_info world0)))
       record_custom world0 =
     emit_long_guarded env_ok
       (fst (snd (emit_long env_send_fails handler_long record_info world0)))
       record_custom world0 \<and>
   fst (snd (emit_min env_send_fails handler_min record_info world0)) = handler_min \<and>
   emit_min env_ok (fst (snd (emit_min env_send_fails handler_min record_info world0)))
       record_custom world0 =
     emit_min_guarded env_ok
       (fst (snd (emit_min env_send_fails handler_min record_info world0)))
       record_custom world0"
proof -
  have l: "\<not> reentry_barrier handler_long"
    by (simp add: handler_long_def DiscordHandlerLong_init_def)
  have m: "\<not> reentry_barrier handler_min"
    by (simp add: handler_min_def DiscordHandler_init_def)
  show ?thesis
    using l m
      emit_clears_barrier [OF l m, of env_send_fails record_info world0 env_ok record_custom
        world0 world0 world0]
    by blast
qed

section \<open>What reaches the caller\<close>

text \<open>Both handlers catch \<open>Exception\<close>: what leaves the \<open>try\<close> is not an \<open>Exception\<close>.\<close>

lemma outer_min_no_Exception:
  assumes "fst (outer_min ev h r w) = Some e"
  shows "\<not> is_Exception e"
proof (cases "inner_min ev h r w")
  case (Pair x w1)
  with assms show ?thesis
    by (cases x) (auto simp: outer_min_def split: if_splits)
qed

lemma outer_long_no_Exception:
  assumes "fst (outer_long ev h r w) = Some e"
  shows "\<not> is_Exception e"
proof (cases "inner_long ev h r (new_DiscordWebhook h) w")
  case (Pair x w1)
  with assms show ?thesis
    by (cases x) (auto simp: outer_long_def split: if_splits)
qed

lemma emit_min_no_Exception:
  "fst (emit_min ev h r w) = None \<or>
   (\<exists>e. fst (emit_min ev h r w) = Some e \<and> \<not> is_Exception e)"
proof (cases "reentry_barrier h")
  case True
  then show ?thesis by (simp add: emit_min_def)
next
  case False
  then show ?thesis
    using outer_min_no_Exception [of ev h r w]
    by (cases "fst (outer_min ev h r w)") (simp_all add: emit_min_clear)
qed

lemma emit_long_no_Exception:
  "fst (emit_long ev h r w) = None \<or>
   (\<exists>e. fst (emit_long ev h r w) = Some e \<and> \<not> is_Exception e)"
proof (cases "reentry_barrier h")
  case True
  then show ?thesis by (simp add: emit_long_def)
next
  case False
  then show ?thesis
    using outer_long_no_Exception [of ev h r w]
    by (cases "fst (outer_long ev h r w)") (simp_all add: emit_long_clear)
qed

text \<open>
  Claim C1, as amended. Whatever formatting, the style lookup, the construction of the
  embed, \<open>from_url\<close> and the delivery do, \<open>emit\<close> of either handler returns normally or
  lets through an exception that is not an \<open>Exception\<close> (one that derives from
  \<open>BaseException\<close> only, such as \<open>KeyboardInterrupt\<close>): no \<open>Exception\<close> raised inside
  \<open>emit\<close> reaches the caller.
\<close>

theorem emit_no_Exception_escapes:
  "(fst (emit_long ev hl r wl) = None \<or>
      (\<exists>e. fst (emit_long ev hl r wl) = Some e \<and> \<not> is_Exception e)) \<and>
   (fst (emit_min ev hm r wm) = None \<or>
      (\<exists>e. fst (emit_min ev hm r wm) = Some e \<and> \<not> is_Exception e))"
  using emit_long_no_Exception [of ev hl r wl] emit_min_no_Exception [of ev hm r wm]
  by blast

text \<open>A formatter that raises and a delivery that fails: \<open>emit\<close> returns.\<close>

theorem emit_no_Exception_escapes_witness:
  "fst (emit_long env_format_fails handler_long record_info world0) = None \<and>
   fst (emit_long env_send_fails handler_long record_info world0) = None \<and>
   fst (emit_min env_format_fails handler_min record_info world0) = None \<and>
   fst (emit_min env_send_fails handler_min record_info world0) = None"
  using emit_no_Exception_escapes [of env_format_fails handler_long record_info world0
      handler_min world0]
    emit_no_Exception_escapes [of env_send_fails handler_long record_info world0
      handler_min world0]
  by (simp add: eval_defs)

text \<open>Claim C1 as stated fails: a \<open>KeyboardInterrupt\<close> during the delivery is caught by
  neither handler and reaches the caller.\<close>

theorem emit_KeyboardInterrupt_counterexample:
  "fst (emit_long env_interrupted handler_long record_info world0) =
     Some (Raised KeyboardInterrupt []) \<and>
   fst (emit_min env_interrupted handler_min record_info world0) =
     Some (Raised KeyboardInterrupt [])"
  by (simp add: eval_defs)

section \<open>Effects of one call\<close>

lemma inner_long_world:
  "inner_long ev h r d w =
     (case format ev r of
        Inl e \<Rightarrow> (Some e, w)
      | Inr m \<Rightarrow>
          (case layout ev h r m d of
             Inl e \<Rightarrow> (Some e, w)
           | Inr d' \<Rightarrow> (snd (execute ev d'), delivered d' (fst (execute ev d')) w)))"
  by (simp add: inner_long_def)



lemma outer_long_posts:
  "posts (snd (outer_long ev h r w)) = posts (snd (inner_long ev h r (new_DiscordWebhook h) w)) \<and>
   requests (snd (outer_long ev h r w)) =
     requests (snd (inner_long ev h r (new_DiscordWebhook h) w))"
proof (cases "inner_long ev h r (new_DiscordWebhook h) w")
  case (Pair x w1)
  then show ?thesis
    by (cases x) (simp_all add: outer_long_def print_stderr_def call_handleError_def)
qed




lemma outer_min_posts:
  "posts (snd (outer_min ev h r w)) = posts (snd (inner_min ev h r w)) \<and>
   requests (snd (outer_min ev h r w)) = requests (snd (inner_min ev h r w))"
proof (cases "inner_min ev h r w")
  case (Pair x w1)
  then show ?thesis
    by (cases x) (simp_all add: outer_min_def print_stderr_def call_handleError_def)
qed






section \<open>The layouts of the long-format handler\<close>

lemma py_split1_separator:
  "c \<in> set xs \<Longrightarrow>
     py_split1 c xs = [takeWhile (\<lambda>x. x \<noteq> c) xs, drop 1 (dropWhile (\<lambda>x. x \<noteq> c) xs)]"
  by (simp add: py_split1_def)


lemma layout_code_block:
  assumes "colour_long (colours h) (levelno r) = Inr c"
    and "NL \<in> set m \<or> embed_line_wrap_threshold h < int (length m)"
    and "embed_line_wrap_threshold h < Max ((\<lambda>l. int (length l)) ` set (py_split NL m))"
  shows "layout ev h r m d =
     Inr (d\<lparr>content := Some (fence @ fstr (emoji_long (emojis h) (levelno r)) @
                              clip_content m 1900 True @ fence)\<rparr>)"
proof -
  from assms(2) have "should_format_as_code_block h r m"
    by (auto simp: should_format_as_code_block_def)
  with assms(1,3) show ?thesis
    by (simp add: layout_def py_max_lines Let_def split: prod.splits)
qed

lemma layout_embed:
  assumes "colour_long (colours h) (levelno r) = Inr c"
    and "NL \<in> set m"
    and "\<not> embed_line_wrap_threshold h < Max ((\<lambda>l. int (length l)) ` set (py_split NL m))"
  shows "layout ev h r m d =
     add_embed ev d
       \<lparr>title = fstr (emoji_long (emojis h) (levelno r)) @ takeWhile (\<lambda>x. x \<noteq> NL) m,
        description = Some (clip_content (drop 1 (dropWhile (\<lambda>x. x \<noteq> NL) m)) 1900 True),
        color = c\<rparr>"
proof -
  from assms(2) have "should_format_as_code_block h r m"
    by (auto simp: should_format_as_code_block_def)
  with assms show ?thesis
    by (simp add: layout_def py_max_lines py_split1_separator Let_def)
qed



text \<open>With the barrier clear and a formatted message, \<open>emit\<close> hands the laid-out message to
  \<open>execute\<close>.\<close>

lemma emit_long_posts:
  assumes "\<not> reentry_barrier h"
    and "format ev r = Inr m"
    and "layout ev h r m (new_DiscordWebhook h) = Inr d"
  shows "posts (snd (snd (emit_long ev h r w))) = posts w @ [d]"
  using assms by (simp add: emit_long_clear outer_long_posts inner_long_world delivered_def)



text \<open>
  Claim C5 on a level without an emoji: the lookup yields \<open>None\<close>, and the code-block
  layout interpolates it into the f-string untested. With the default dictionaries, a
  record of the custom level 25 whose message is one line of 61 characters is sent as
  a code block that begins with the text \<open>None\<close> inside the fence.
\<close>

theorem emit_long_code_block_prefix_None:
  "emojis handler_long (Some (levelno record_custom_long)) = None \<and>
   msg record_custom_long = replicate 61 97 \<and>
   posts (snd (snd (emit_long env_ok handler_long record_custom_long world0))) =
     [(new_DiscordWebhook handler_long)\<lparr>content :=
        Some (fence @ py ''None'' @ replicate 61 97 @ fence)\<rparr>]"
proof -
  have "layout env_ok handler_long record_custom_long (msg record_custom_long)
          (new_DiscordWebhook handler_long) =
      Inr ((new_DiscordWebhook handler_long)\<lparr>content :=
        Some (fence @ py ''None'' @ replicate 61 97 @ fence)\<rparr>)"
    using layout_code_block [of handler_long record_custom_long 2040357
        "msg record_custom_long" env_ok "new_DiscordWebhook handler_long"]
    by (simp add: handler_long_simps record_custom_long_simps default_style_custom)
  then have "posts (snd (snd (emit_long env_ok handler_long record_custom_long world0))) =
      [(new_DiscordWebhook handler_long)\<lparr>content :=
        Some (fence @ py ''None'' @ replicate 61 97 @ fence)\<rparr>]"
    using emit_long_posts [of handler_long env_ok record_custom_long "msg record_custom_long"
        _ world0]
    by (simp add: handler_long_simps env_ok_simps world0_def)
  then show ?thesis
    by (simp add: handler_long_simps record_custom_long_simps default_style_custom)
qed

section \<open>Field lengths\<close>



text \<open>What the minimal handler sends: the title is the whole message behind the emoji,
  unclipped.\<close>

lemma emit_min_sent:
  assumes "\<not> reentry_barrier h"
    and "format ev r = Inr m"
    and "colour_min (colours h) (levelno r) = Inr c"
    and "from_url ev (webhook_url h) = None"
  shows "posts (snd (snd (emit_min ev h r w))) = posts w @
     [\<lparr>send_url = webhook_url h, send_username = service_name h,
       send_avatar_url = avatar_url h,
       send_embed =
         \<lparr>title = (if emoji_min (emojis h) (levelno r) \<noteq> []
                    then emoji_min (emojis h) (levelno r) @ [SP] @ m else m),
           description = None, color = c\<rparr>\<rparr>]"
  using assms by (simp add: emit_min_clear outer_min_posts inner_min_def delivered_def Let_def)




section \<open>The emoji prefix\<close>

text \<open>
  Claim C8 on the long-format handler: for a level that the emoji dictionary does not
  have, the lookup yields \<open>None\<close>, and the two layouts that interpolate the emoji into an
  f-string without testing it send the text \<open>None\<close> before the message. With the default
  dictionaries, a record of the custom level 25 with the message \<open>a\<close>, newline, \<open>b\<close> is
  sent with the title \<open>Nonea\<close>.
\<close>

theorem emit_long_absent_emoji_renders_None:
  "emojis handler_long (Some (levelno record_custom)) = None \<and>
   msg record_custom = py ''a'' @ [NL] @ py ''b'' \<and>
   posts (snd (snd (emit_long env_ok handler_long record_custom world0))) =
     [(new_DiscordWebhook handler_long)\<lparr>embeds :=
        [\<lparr>title = py ''None'' @ py ''a'', description = Some (py ''b''),
          color = 2040357\<rparr>]\<rparr>]"
proof -
  have lv: "levelno record_custom = 25" and ms: "msg record_custom = [97, 10, 98]"
    by (simp_all add: record_custom_def py_def NL_def)
  have "layout env_ok handler_long record_custom (msg record_custom)
          (new_DiscordWebhook handler_long) =
      Inr ((new_DiscordWebhook handler_long)\<lparr>embeds :=
        [\<lparr>title = py ''None'' @ [97], description = Some [98], color = 2040357\<rparr>]\<rparr>)"
    using layout_embed [of handler_long record_custom 2040357 "msg record_custom" env_ok
        "new_DiscordWebhook handler_long"]
    by (simp add: handler_long_simps lv ms default_style_custom NL_def clip_content_def
          new_DiscordWebhook_def add_embed_def env_ok_simps)
  then have "posts (snd (snd (emit_long env_ok handler_long record_custom world0))) =
      [(new_DiscordWebhook handler_long)\<lparr>embeds :=
        [\<lparr>title = py ''None'' @ [97], description = Some [98], color = 2040357\<rparr>]\<rparr>]"
    using emit_long_posts [of handler_long env_ok record_custom "msg record_custom" _ world0]
    by (simp add: handler_long_simps env_ok_simps world0_def)
  then show ?thesis
    by (simp add: handler_long_simps lv default_style_custom record_custom_def py_def)
qed

text \<open>The minimal handler prefixes a non-empty emoji and one space, and nothing
  otherwise.\<close>

theorem emit_min_prefix:
  assumes "\<not> reentry_barrier h"
    and "format ev r = Inr m"
    and "colour_min (colours h) (levelno r) = Inr c"
    and "from_url ev (webhook_url h) = None"
  shows "map (title \<circ> send_embed) (posts (snd (snd (emit_min ev h r w)))) =
     map (title \<circ> send_embed) (posts w) @
     [case emojis h (Some (levelno r)) of
        None \<Rightarrow> m
      | Some e \<Rightarrow> if e = [] then m else e @ [SP] @ m]"
  using emit_min_sent [OF assms, of w]
  by (simp add: emoji_min_def split: option.splits)

theorem emit_min_prefix_witness:
  "\<not> reentry_barrier handler_min \<and>
   format env_ok record_error = Inr (msg record_error) \<and>
   colour_min (colours handler_min) (levelno record_error) = Inr 14362664 \<and>
   from_url env_ok (webhook_url handler_min) = None \<and>
   map (title \<circ> send_embed)
       (posts (snd (snd (emit_min env_ok handler_min record_error world0)))) =
     [[10060, SP] @ msg record_error]"
proof -
  have a: "\<not> reentry_barrier handler_min" by (rule handler_min_simps)
  have b: "format env_ok record_error = Inr (msg record_error)" by (rule env_ok_simps)
  have c: "colour_min (colours handler_min) (levelno record_error) = Inr 14362664"
    by (simp add: handler_min_simps record_error_def default_style_ERROR)
  have d: "from_url env_ok (webhook_url handler_min) = None" by (rule env_ok_simps)
  show ?thesis
    using a b c d emit_min_prefix [OF a b c d, of world0]
    by (simp add: handler_min_simps record_error_def default_style_ERROR world0_def)
qed

section \<open>Style resolution\<close>

text \<open>
  Claim C4 on a level without an emoji: neither handler reads the entry under the
  fallback key of the emoji dictionary. With \<open>?\<close> under that key, a record of the custom
  level 25 with the message \<open>hello\<close> is sent by both handlers with the bare title
  \<open>hello\<close>. The colour lookups do read their fallback key.
\<close>

theorem emit_ignores_emoji_fallback:
  "emojis handler_min_fallback None = Some (py ''?'') \<and>
   emojis handler_min_fallback (Some (levelno record_custom_short)) = None \<and>
   map (title \<circ> send_embed)
       (posts (snd (snd (emit_min env_ok handler_min_fallback record_custom_short world0)))) =
     [py ''hello''] \<and>
   emojis handler_long_fallback None = Some (py ''?'') \<and>
   emojis handler_long_fallback (Some (levelno record_custom_short)) = None \<and>
   map (map title \<circ> embeds)
       (posts (snd (snd (emit_long env_ok handler_long_fallback record_custom_short world0)))) =
     [[py ''hello'']]"
  by (simp add: eval_defs)

text \<open>The lookups by themselves.\<close>

lemma style_lookups:
  "(cols (Some l) = Some c \<and> c \<noteq> 0 \<longrightarrow> colour_long cols l = Inr c) \<and>
   (cols (Some l) = None \<and> cols None = Some d \<longrightarrow> colour_long cols l = Inr d) \<and>
   (cols (Some l) = Some c \<and> cols None = Some d \<longrightarrow> colour_min cols l = Inr c) \<and>
   (cols (Some l) = None \<and> cols None = Some d \<longrightarrow> colour_min cols l = Inr d) \<and>
   (emos (Some l) = Some e \<longrightarrow>
      emoji_min emos l = e \<and> emoji_long emos l = Some (if e = [] then [] else e @ [SP])) \<and>
   (emos (Some l) = None \<longrightarrow> emoji_min emos l = [] \<and> emoji_long emos l = None)"
  by (simp add: colour_long_def colour_min_def emoji_min_def emoji_long_def)

end
